theory Spec2Isabelle
  imports Main "HOL-Library.AList"
begin

section \<open>The request pipeline (package graphql: Params, DoAsync, Do, do)\<close>

subsection \<open>Data\<close>

text \<open>
  Values the pipeline only passes through (schema, root object, variables, Go errors) are
  kept as plain strings or association lists. A context is either the background context,
  a child made by \<^verbatim>\<open>context.WithCancel\<close> (the number names its cancel function), or a
  context changed by user code.
\<close>

type_synonym schema = string
type_synonym go_error = string
type_synonym values_map = "(string \<times> string) list"

datatype ctx = Background | WithCancel ctx nat | WithValue ctx string

text \<open>
  \<^verbatim>\<open>ast.Node\<close> is an interface with many implementations. The pipeline only asks whether
  the dynamic type of a top-level definition is \<^verbatim>\<open>*ast.OperationDefinition\<close> and, if so,
  reads its \<^verbatim>\<open>Operation\<close> field; every other node type is kept by its kind name.
\<close>

datatype Node =
    OperationDefinition string
  | FragmentDefinition
  | OtherNode string

record Document =
  Definitions :: "Node list"

datatype FormattedError = FormattedError (Message: string) (OriginalError: go_error)

record Result =
  Data :: "string option"
  Errors :: "FormattedError list"

record ValidationResult =
  IsValid :: bool
  VErrors :: "FormattedError list"

record Params =
  Schema :: schema
  RequestString :: string
  RootObject :: values_map
  VariableValues :: values_map
  OperationName :: string
  Context :: ctx

datatype ExecuteParams =
  ExecuteParams schema values_map Document string values_map ctx

subsection \<open>Channels\<close>

text \<open>
  A \<^verbatim>\<open>chan *Result\<close> as its consumer sees it: the values that the producing goroutines
  send on it, in order, and whether the producer closes the channel after the last of
  them. A receive takes the next value; with no value left it reports closure when the
  channel is closed and blocks for ever when it is not.
\<close>

record 'a chan =
  sends :: "'a list"
  closed :: bool

datatype 'a recv = Received 'a | ClosedZero | BlocksForever

definition recv :: "'a chan \<Rightarrow> 'a recv \<times> 'a chan" where
  "recv ch =
     (case sends ch of
        x # xs \<Rightarrow> (Received x, ch\<lparr>sends := xs\<rparr>)
      | [] \<Rightarrow> (if closed ch then ClosedZero else BlocksForever, ch))"

text \<open>The outcome of a call: it returns, it panics, or it never returns.\<close>

datatype 'a outcome = Returns 'a | Panics | Blocks

subsection \<open>Collaborators\<close>

text \<open>
  The extension dispatcher, the parser, the validator and the two executors are called by
  \<^verbatim>\<open>do\<close> and defined in other packages; they are parameters. The hook
  dispatchers receive \<^verbatim>\<open>&p\<close> and may replace \<^verbatim>\<open>p.Context\<close>, so they return the
  parameters as well. A start hook returns its errors and the finish function.
\<close>

record Env =
  handleExtensionsInits :: "Params \<Rightarrow> FormattedError list \<times> Params"
  handleExtensionsParseDidStart ::
    "Params \<Rightarrow> (FormattedError list \<times> (go_error option \<Rightarrow> FormattedError list)) \<times> Params"
  Parse :: "string \<Rightarrow> go_error + Document"
  FormatErrors :: "go_error \<Rightarrow> FormattedError list"
  handleExtensionsValidationDidStart ::
    "Params \<Rightarrow> (FormattedError list \<times> (FormattedError list \<Rightarrow> FormattedError list)) \<times> Params"
  ValidateDocument :: "schema \<Rightarrow> Document \<Rightarrow> ValidationResult"
  Execute :: "ExecuteParams \<Rightarrow> Result"
  ExecuteSubscription :: "ExecuteParams \<Rightarrow> Result chan"

text \<open>
  The calls \<^verbatim>\<open>do\<close> makes, in the order it makes them; a start hook's event carries
  the errors the hook returned, a finish hook's event the argument it was given.
  \<^verbatim>\<open>Execute\<close> runs in the goroutine that \<^verbatim>\<open>do\<close> starts for the single-result
  strategy.
\<close>

datatype event =
    CallInits
  | CallParseDidStart "FormattedError list"
  | CallParse
  | CallParseFinish "go_error option"
  | CallValidationDidStart "FormattedError list"
  | CallValidateDocument
  | CallValidationFinish "FormattedError list"
  | CallExecute
  | CallExecuteSubscription

subsection \<open>do\<close>

definition wrapErr :: "FormattedError list \<Rightarrow> Result chan" where
  "wrapErr gqlerr = \<lparr>sends = [\<lparr>Data = None, Errors = gqlerr\<rparr>], closed = False\<rparr>"

text \<open>
  \<^verbatim>\<open>AST.Definitions[0].(*ast.OperationDefinition).Operation\<close>: the type assertion has no
  \<^verbatim>\<open>ok\<close> result, so it panics on any other dynamic type.
\<close>

definition assertOperation :: "Node \<Rightarrow> string outcome" where
  "assertOperation n =
     (case n of OperationDefinition operation \<Rightarrow> Returns operation | _ \<Rightarrow> Panics)"

text \<open>
  The last statement of \<^verbatim>\<open>do\<close>. The condition is evaluated left to right and stops at
  the first false conjunct, so the assertion is reached only when subscriptions are not
  skipped and the document has a definition.
\<close>

definition dispatch ::
  "Env \<Rightarrow> ExecuteParams \<Rightarrow> Document \<Rightarrow> bool \<Rightarrow> event list \<times> Result chan outcome" where
  "dispatch env params AST skipSubscriptions =
     (if \<not> skipSubscriptions \<and> length (Definitions AST) > 0 then
        (case assertOperation (hd (Definitions AST)) of
           Returns operation \<Rightarrow>
             if operation = ''subscription''
             then ([CallExecuteSubscription], Returns (ExecuteSubscription env params))
             else ([CallExecute], Returns \<lparr>sends = [Execute env params], closed = False\<rparr>)
         | Panics \<Rightarrow> ([], Panics)
         | Blocks \<Rightarrow> ([], Blocks))
      else ([CallExecute], Returns \<lparr>sends = [Execute env params], closed = False\<rparr>))"

definition do :: "Env \<Rightarrow> Params \<Rightarrow> bool \<Rightarrow> event list \<times> Result chan outcome" where
  "do env p0 skipSubscriptions =
     (let source = RequestString p0;
          (extErrs, p1) = handleExtensionsInits env p0;
          tr = [CallInits]
      in if length extErrs \<noteq> 0 then (tr, Returns (wrapErr extErrs))
      else
      let ((extErrs, parseFinishFn), p2) = handleExtensionsParseDidStart env p1;
          tr = tr @ [CallParseDidStart extErrs]
      in if length extErrs \<noteq> 0 then (tr, Returns (wrapErr extErrs))
      else
      case Parse env source of
        Inl err \<Rightarrow>
          let extErrs = parseFinishFn (Some err);
              extErrs = extErrs @ FormatErrors env err
          in (tr @ [CallParse, CallParseFinish (Some err)], Returns (wrapErr extErrs))
      | Inr AST \<Rightarrow>
          let extErrs = parseFinishFn None;
              tr = tr @ [CallParse, CallParseFinish None]
          in if length extErrs \<noteq> 0 then (tr, Returns (wrapErr extErrs))
          else
          let ((extErrs, validationFinishFn), p3) = handleExtensionsValidationDidStart env p2;
              tr = tr @ [CallValidationDidStart extErrs]
          in if length extErrs \<noteq> 0 then (tr, Returns (wrapErr extErrs))
          else
          let validationResult = ValidateDocument env (Schema p3) AST;
              tr = tr @ [CallValidateDocument]
          in if \<not> IsValid validationResult then
               let extErrs = validationFinishFn (VErrors validationResult);
                   extErrs = extErrs @ VErrors validationResult
               in (tr @ [CallValidationFinish (VErrors validationResult)],
                   Returns (wrapErr extErrs))
          else
          let extErrs = validationFinishFn (VErrors validationResult);
              tr = tr @ [CallValidationFinish (VErrors validationResult)]
          in if length extErrs \<noteq> 0 then (tr, Returns (wrapErr extErrs))
          else
          let params = ExecuteParams (Schema p3) (RootObject p3) AST (OperationName p3)
                         (VariableValues p3) (Context p3);
              (tr', out) = dispatch env params AST skipSubscriptions
          in (tr @ tr', out))"

definition DoAsync :: "Env \<Rightarrow> Params \<Rightarrow> event list \<times> Result chan outcome" where
  "DoAsync env p = do env p False"

text \<open>
  \<^verbatim>\<open>Do\<close> receives once from the channel. A receive from a closed channel would give the
  nil pointer, written \<open>None\<close>.
\<close>

definition Do :: "Env \<Rightarrow> Params \<Rightarrow> Result option outcome" where
  "Do env p =
     (case snd (do env p True) of
        Returns ch \<Rightarrow>
          (case fst (recv ch) of
             Received r \<Rightarrow> Returns (Some r)
           | ClosedZero \<Rightarrow> Returns None
           | BlocksForever \<Rightarrow> Blocks)
      | Panics \<Rightarrow> Panics
      | Blocks \<Rightarrow> Blocks)"

section \<open>The websocket handler (package handler)\<close>

subsection \<open>Keepalive constants\<close>

text \<open>
  \<^verbatim>\<open>time.Duration\<close> is a count of nanoseconds. The constants are Go constant
  expressions, computed exactly; all of them are far inside the range of int64.
\<close>

definition Second :: int where
  "Second = 1000000000"

definition writeWait :: int where
  "writeWait = 10 * Second"

definition pongWait :: int where
  "pongWait = 60 * Second"

definition pingPeriod :: int where
  "pingPeriod = pongWait div 2"

definition maxMessageSize :: int where
  "maxMessageSize = 512000"

subsection \<open>Frames\<close>

text \<open>
  The \<^verbatim>\<open>ID\<close> of a frame has type \<^verbatim>\<open>any\<close>: \<open>None\<close> is the nil interface, \<open>Some\<close>
  holds a decoded JSON value. A \<^verbatim>\<open>json.RawMessage\<close> is either absent, bytes that came
  from the peer, or the output of \<^verbatim>\<open>json.Marshal\<close> on a string or on a result.
\<close>

type_synonym json_id = "string option"

datatype raw =
    NoPayload
  | Raw string
  | MarshalString string
  | MarshalResult "Result option"

record GraphQLWSMessage =
  ID :: json_id
  Type :: string
  Payload :: raw

record GraphQLWSSubscriptionPayload =
  pOperationName :: string
  Query :: string
  Variables :: values_map
  Extensions :: values_map

record Handler =
  hSchema :: schema
  formatErrorFn :: "(go_error \<Rightarrow> FormattedError) option"
  ModifyContextOnHeaders :: "(ctx \<Rightarrow> values_map \<Rightarrow> ctx) option"

text \<open>The decoders of \<^verbatim>\<open>encoding/json\<close> and \<^verbatim>\<open>fmt.Sprintf("%v", _)\<close> are parameters.\<close>

record Codec =
  UnmarshalMessage :: "string \<Rightarrow> go_error + GraphQLWSMessage"
  UnmarshalPayload :: "raw \<Rightarrow> go_error + GraphQLWSSubscriptionPayload"
  UnmarshalHeaders :: "raw \<Rightarrow> go_error + values_map"
  Sprintf_v :: "json_id \<Rightarrow> string"

subsection \<open>The state of one connection\<close>

text \<open>
  What the closures of \<^verbatim>\<open>ContextWebsocketHandler\<close> share: the variable \<^verbatim>\<open>ctx\<close>, the
  registry \<^verbatim>\<open>ws.subscriptionCancellers\<close>, the ticker and the socket. Cancel functions
  are named by numbers: \<open>nextCancel\<close> is the name the next \<^verbatim>\<open>context.WithCancel\<close>
  gives, \<open>cancelled\<close> lists the cancel functions called so far, in order. \<open>written\<close>
  lists the frames handed to \<^verbatim>\<open>ws.WriteJSON\<close>, whose error result the handler ignores.
\<close>

record Conn =
  ctxVar :: ctx
  subscriptionCancellers :: "(string \<times> nat) list"
  nextCancel :: nat
  cancelled :: "nat list"
  written :: "GraphQLWSMessage list"
  tickerStopped :: bool
  connClosed :: bool

definition Store :: "string \<Rightarrow> nat \<Rightarrow> Conn \<Rightarrow> Conn" where
  "Store k v st = st\<lparr>subscriptionCancellers := AList.update k v (subscriptionCancellers st)\<rparr>"

definition Load :: "string \<Rightarrow> Conn \<Rightarrow> nat option" where
  "Load k st = map_of (subscriptionCancellers st) k"

definition Delete :: "string \<Rightarrow> Conn \<Rightarrow> Conn" where
  "Delete k st = st\<lparr>subscriptionCancellers := AList.delete k (subscriptionCancellers st)\<rparr>"

text \<open>
  \<^verbatim>\<open>Range\<close> calls \<open>f\<close> on the entries present when it starts, one after the other, and
  stops when \<open>f\<close> returns false.
\<close>

fun Range :: "('k \<Rightarrow> 'v \<Rightarrow> 's \<Rightarrow> bool \<times> 's) \<Rightarrow> ('k \<times> 'v) list \<Rightarrow> 's \<Rightarrow> 's" where
  "Range f [] s = s"
| "Range f ((k, v) # kvs) s = (let (continue, s') = f k v s in if continue then Range f kvs s' else s')"

definition callCancel :: "nat \<Rightarrow> Conn \<Rightarrow> Conn" where
  "callCancel c st = st\<lparr>cancelled := cancelled st @ [c]\<rparr>"

definition WriteJSON :: "GraphQLWSMessage \<Rightarrow> Conn \<Rightarrow> Conn" where
  "WriteJSON m st = st\<lparr>written := written st @ [m]\<rparr>"

definition terminateConnection :: "Conn \<Rightarrow> Conn" where
  "terminateConnection st0 =
     (let st = st0\<lparr>tickerStopped := True\<rparr>;
          st = st\<lparr>connClosed := True\<rparr>
      in Range (\<lambda>id cancel s. (True, callCancel cancel (Delete id s)))
           (subscriptionCancellers st) st)"

subsection \<open>Strings\<close>

definition TrimLeft :: "string \<Rightarrow> string \<Rightarrow> string" where
  "TrimLeft s cutset = dropWhile (\<lambda>c. c \<in> set cutset) s"

definition HasPrefix :: "string \<Rightarrow> string \<Rightarrow> bool" where
  "HasPrefix s pre = (length s \<ge> length pre \<and> take (length pre) s = pre)"

subsection \<open>The task started for one inbound message\<close>

text \<open>
  A task ends, or blocks for ever in a receive (the state is what it did before), or
  panics, which ends the process.
\<close>

datatype 's task = Done 's | Blocked 's | Crashed

text \<open>\<^verbatim>\<open>for result := range ch { body }\<close> ends when the channel is closed.\<close>

definition rangeChan :: "('a \<Rightarrow> 's \<Rightarrow> 's) \<Rightarrow> 'a chan \<Rightarrow> 's \<Rightarrow> 's task" where
  "rangeChan body ch st =
     (let st' = fold body (sends ch) st in if closed ch then Done st' else Blocked st')"

definition dataMessageNames :: "(string \<times> string) list" where
  "dataMessageNames = [(''subscribe'', ''next''), (''start'', ''data'')]"

definition errorFrame :: "go_error \<Rightarrow> GraphQLWSMessage" where
  "errorFrame err = \<lparr>ID = None, Type = ''error'', Payload = MarshalString err\<rparr>"

text \<open>The case \<^verbatim>\<open>"subscribe", "start"\<close> of the switch.\<close>

definition handleStart :: "Handler \<Rightarrow> Codec \<Rightarrow> Env \<Rightarrow> GraphQLWSMessage \<Rightarrow> Conn \<Rightarrow> Conn task" where
  "handleStart h codec env msg st0 =
     (let dataMessageName = (case map_of dataMessageNames (Type msg) of Some n \<Rightarrow> n | None \<Rightarrow> [])
      in case UnmarshalPayload codec (Payload msg) of
        Inl err \<Rightarrow> Done (WriteJSON (errorFrame err) st0)
      | Inr payload \<Rightarrow>
          let cancel = nextCancel st0;
              cancellableCtx = WithCancel (ctxVar st0) cancel;
              st = st0\<lparr>nextCancel := Suc cancel\<rparr>;
              st = Store (Sprintf_v codec (ID msg)) cancel st;
              params = \<lparr>Schema = hSchema h, RequestString = Query payload, RootObject = [],
                        VariableValues = Variables payload,
                        OperationName = pOperationName payload, Context = cancellableCtx\<rparr>;
              writeResult = (\<lambda>result. WriteJSON
                        \<lparr>ID = ID msg, Type = dataMessageName, Payload = MarshalResult result\<rparr>)
          in if HasPrefix (TrimLeft (Query payload) '' '') ''subscription'' then
               (case snd (DoAsync env params) of
                  Returns ch \<Rightarrow> rangeChan (\<lambda>result. writeResult (Some result)) ch st
                | Panics \<Rightarrow> Crashed
                | Blocks \<Rightarrow> Blocked st)
             else
               (case Do env params of
                  Returns result \<Rightarrow>
                    (case formatErrorFn h of
                       None \<Rightarrow> Done (callCancel cancel (writeResult result st))
                     | Some formatError \<Rightarrow>
                         (case result of
                            None \<Rightarrow> Crashed
                          | Some r \<Rightarrow>
                              let r = (if length (Errors r) > 0
                                       then r\<lparr>Errors := map (\<lambda>formattedError.
                                              formatError (OriginalError formattedError)) (Errors r)\<rparr>
                                       else r)
                              in Done (callCancel cancel (writeResult (Some r) st))))
                | Panics \<Rightarrow> Crashed
                | Blocks \<Rightarrow> Blocked st))"

text \<open>The function run in a goroutine of its own for every message read.\<close>

definition handleMessage :: "Handler \<Rightarrow> Codec \<Rightarrow> Env \<Rightarrow> string \<Rightarrow> Conn \<Rightarrow> Conn task" where
  "handleMessage h codec env message st =
     (case UnmarshalMessage codec message of
        Inl err \<Rightarrow> Done (WriteJSON (errorFrame err) st)
      | Inr msg \<Rightarrow>
          if Type msg = ''connection_init'' then
            (let st = WriteJSON \<lparr>ID = None, Type = ''connection_ack'', Payload = NoPayload\<rparr> st
             in case ModifyContextOnHeaders h of
                  None \<Rightarrow> Done st
                | Some modify \<Rightarrow>
                    (case UnmarshalHeaders codec (Payload msg) of
                       Inr headers \<Rightarrow> Done (st\<lparr>ctxVar := modify (ctxVar st) headers\<rparr>)
                     | Inl err \<Rightarrow> Done st))
          else if Type msg = ''subscribe'' \<or> Type msg = ''start'' then
            handleStart h codec env msg st
          else if Type msg = ''stop'' then
            (case Load (Sprintf_v codec (ID msg)) st of
               Some cancel \<Rightarrow> Done (callCancel cancel (Delete (Sprintf_v codec (ID msg)) st))
             | None \<Rightarrow> Done st)
          else Done st)"

section \<open>Properties and examples\<close>

subsection \<open>Reaching the dispatch step\<close>

definition executeParamsOf :: "Params \<Rightarrow> Document \<Rightarrow> ExecuteParams" where
  "executeParamsOf p AST =
     ExecuteParams (Schema p) (RootObject p) AST (OperationName p) (VariableValues p) (Context p)"

text \<open>
  No hook returns an error, the query text parses to \<open>AST\<close> and the document is valid;
  \<open>p'\<close> is the value of \<^verbatim>\<open>p\<close> after the hooks have run.
\<close>

definition passesStages :: "Env \<Rightarrow> Params \<Rightarrow> Document \<Rightarrow> Params \<Rightarrow> bool" where
  "passesStages env p AST p' =
     (case handleExtensionsInits env p of (e1, p1) \<Rightarrow>
        e1 = [] \<and>
        (case handleExtensionsParseDidStart env p1 of ((e2, parseFinishFn), p2) \<Rightarrow>
           e2 = [] \<and> Parse env (RequestString p) = Inr AST \<and> parseFinishFn None = [] \<and>
           (case handleExtensionsValidationDidStart env p2 of ((e3, validationFinishFn), p3) \<Rightarrow>
              e3 = [] \<and> p3 = p' \<and> IsValid (ValidateDocument env (Schema p3) AST) \<and>
              validationFinishFn (VErrors (ValidateDocument env (Schema p3) AST)) = [])))"

definition stagesTrace :: "Env \<Rightarrow> Params \<Rightarrow> Document \<Rightarrow> event list" where
  "stagesTrace env p AST =
     [CallInits, CallParseDidStart [], CallParse, CallParseFinish None,
      CallValidationDidStart [], CallValidateDocument,
      CallValidationFinish (VErrors (ValidateDocument env (Schema p) AST))]"

fun isOperationDefinition :: "Node \<Rightarrow> bool" where
  "isOperationDefinition (OperationDefinition operation) = True"
| "isOperationDefinition _ = False"

subsection \<open>What a consumer of a channel sees\<close>

definition deliversOneThenCloses :: "'a chan \<Rightarrow> bool" where
  "deliversOneThenCloses ch =
     (case recv ch of
        (Received r, ch') \<Rightarrow> fst (recv ch') = ClosedZero
      | _ \<Rightarrow> False)"

definition deliversOneThenBlocks :: "'a chan \<Rightarrow> bool" where
  "deliversOneThenBlocks ch =
     (case recv ch of
        (Received r, ch') \<Rightarrow> fst (recv ch') = BlocksForever
      | _ \<Rightarrow> False)"

subsection \<open>Counting hook calls\<close>

fun isParseStart :: "event \<Rightarrow> bool" where
  "isParseStart (CallParseDidStart errs) = True"
| "isParseStart _ = False"

fun isParseFinish :: "event \<Rightarrow> bool" where
  "isParseFinish (CallParseFinish err) = True"
| "isParseFinish _ = False"

fun isValidationStart :: "event \<Rightarrow> bool" where
  "isValidationStart (CallValidationDidStart errs) = True"
| "isValidationStart _ = False"

fun isValidationFinish :: "event \<Rightarrow> bool" where
  "isValidationFinish (CallValidationFinish errs) = True"
| "isValidationFinish _ = False"

definition calls :: "(event \<Rightarrow> bool) \<Rightarrow> event list \<Rightarrow> nat" where
  "calls P tr = length (filter P tr)"

subsection \<open>Example collaborators\<close>

text \<open>
  A schema with \<^verbatim>\<open>hello: String\<close> and a \<^verbatim>\<open>counter\<close> subscription, no extensions. The
  parser is given by its answers on the query texts used below; the third text begins
  with a line feed, the fourth with a fragment definition.
\<close>

definition lineFeedSubscription :: string where
  "lineFeedSubscription = CHR 0x0A # ''subscription { counter }''"

definition fragmentFirstQuery :: string where
  "fragmentFirstQuery = ''fragment F on Query { hello } { ...F }''"

definition exampleParse :: "string \<Rightarrow> go_error + Document" where
  "exampleParse s =
     (if s = ''{ hello }'' then Inr \<lparr>Definitions = [OperationDefinition ''query'']\<rparr>
      else if s = ''subscription { counter }'' \<or> s = lineFeedSubscription
        then Inr \<lparr>Definitions = [OperationDefinition ''subscription'']\<rparr>
      else if s = fragmentFirstQuery
        then Inr \<lparr>Definitions = [FragmentDefinition, OperationDefinition ''query'']\<rparr>
      else Inl ''Syntax Error'')"

definition helloResult :: Result where
  "helloResult = \<lparr>Data = Some ''hello: world'', Errors = []\<rparr>"

definition counterEvents :: "Result chan" where
  "counterEvents =
     \<lparr>sends = [\<lparr>Data = Some ''counter: 1'', Errors = []\<rparr>,
               \<lparr>Data = Some ''counter: 2'', Errors = []\<rparr>],
      closed = False\<rparr>"

definition exampleEnv :: Env where
  "exampleEnv = \<lparr>
     handleExtensionsInits = (\<lambda>p. ([], p)),
     handleExtensionsParseDidStart = (\<lambda>p. (([], \<lambda>err. []), p)),
     Parse = exampleParse,
     FormatErrors = (\<lambda>err. [FormattedError err err]),
     handleExtensionsValidationDidStart = (\<lambda>p. (([], \<lambda>errs. []), p)),
     ValidateDocument = (\<lambda>schema AST. \<lparr>IsValid = True, VErrors = []\<rparr>),
     Execute = (\<lambda>params. helloResult),
     ExecuteSubscription = (\<lambda>params. counterEvents)\<rparr>"

definition exampleParams :: "string \<Rightarrow> Params" where
  "exampleParams q =
     \<lparr>Schema = ''schema'', RequestString = q, RootObject = [], VariableValues = [],
      OperationName = [], Context = Background\<rparr>"

definition hookError :: FormattedError where
  "hookError = FormattedError ''extension failed'' ''extension failed''"

text \<open>An extension whose parse-start hook fails.\<close>

definition startFailsEnv :: Env where
  "startFailsEnv =
     exampleEnv\<lparr>handleExtensionsParseDidStart := (\<lambda>p. (([hookError], \<lambda>err. []), p))\<rparr>"

text \<open>An extension whose validation-start hook fails.\<close>

definition validationStartFailsEnv :: Env where
  "validationStartFailsEnv =
     exampleEnv\<lparr>handleExtensionsValidationDidStart := (\<lambda>p. (([hookError], \<lambda>errs. []), p))\<rparr>"

text \<open>An extension whose finish hooks report an error whenever the stage failed.\<close>

definition finishReportsEnv :: Env where
  "finishReportsEnv =
     exampleEnv\<lparr>
       handleExtensionsParseDidStart :=
         (\<lambda>p. (([], \<lambda>err. case err of None \<Rightarrow> [] | Some e \<Rightarrow> [hookError]), p)),
       handleExtensionsValidationDidStart :=
         (\<lambda>p. (([], \<lambda>errs. if errs = [] then [] else [hookError]), p)),
       ValidateDocument :=
         (\<lambda>schema AST. \<lparr>IsValid = False,
            VErrors = [FormattedError ''unknown field'' ''e1'', FormattedError ''unused fragment'' ''e2'']\<rparr>)\<rparr>"

subsection \<open>Example connection\<close>

text \<open>
  Three inbound frames with id 1 and type \<^verbatim>\<open>start\<close>, written here without the double
  quotes of JSON and with the line feed in place of its escape, and the decoders' answers
  on them.
\<close>

definition helloFrame :: string where
  "helloFrame = ''{id:1,type:start,payload:{query:{ hello }}}''"

definition counterFrame :: string where
  "counterFrame = ''{id:1,type:start,payload:{query:subscription { counter }}}''"

definition lineFeedFrame :: string where
  "lineFeedFrame = ''{id:1,type:start,payload:{query:'' @ lineFeedSubscription @ ''}}''"

definition startFrame :: "string \<Rightarrow> GraphQLWSMessage" where
  "startFrame q = \<lparr>ID = Some ''1'', Type = ''start'', Payload = Raw q\<rparr>"

definition exampleCodec :: Codec where
  "exampleCodec = \<lparr>
     UnmarshalMessage = (\<lambda>s.
        if s = helloFrame then Inr (startFrame ''{ hello }'')
        else if s = counterFrame then Inr (startFrame ''subscription { counter }'')
        else if s = lineFeedFrame then Inr (startFrame lineFeedSubscription)
        else Inl ''invalid character''),
     UnmarshalPayload = (\<lambda>r.
        case r of
          Raw q \<Rightarrow> Inr \<lparr>pOperationName = [], Query = q, Variables = [], Extensions = []\<rparr>
        | _ \<Rightarrow> Inl ''unexpected end of JSON input''),
     UnmarshalHeaders = (\<lambda>r. Inl ''unexpected end of JSON input''),
     Sprintf_v = (\<lambda>id. case id of None \<Rightarrow> ''<nil>'' | Some s \<Rightarrow> s)\<rparr>"

definition exampleHandler :: Handler where
  "exampleHandler = \<lparr>hSchema = ''schema'', formatErrorFn = None, ModifyContextOnHeaders = None\<rparr>"

definition newConn :: Conn where
  "newConn = \<lparr>ctxVar = Background, subscriptionCancellers = [], nextCancel = 0,
              cancelled = [], written = [], tickerStopped = False, connClosed = False\<rparr>"

text \<open>The state a task leaves behind when it has ended or blocked.\<close>

fun afterTask :: "'s task \<Rightarrow> 's option" where
  "afterTask (Done s) = Some s"
| "afterTask (Blocked s) = Some s"
| "afterTask Crashed = None"

text \<open>
  One schedule of the tasks of several messages: each task runs until it ends or blocks
  before the task of the next message starts.
\<close>

fun handleMessages :: "Handler \<Rightarrow> Codec \<Rightarrow> Env \<Rightarrow> string list \<Rightarrow> Conn \<Rightarrow> Conn option" where
  "handleMessages h codec env [] st = Some st"
| "handleMessages h codec env (m # ms) st =
     (case afterTask (handleMessage h codec env m st) of
        None \<Rightarrow> None
      | Some st' \<Rightarrow> handleMessages h codec env ms st')"

text \<open>The sessions that were created and whose cancel function has not been called.\<close>

definition liveSessions :: "Conn \<Rightarrow> nat list" where
  "liveSessions st = filter (\<lambda>c. c \<notin> set (cancelled st)) [0..<nextCancel st]"

definition entriesFor :: "string \<Rightarrow> Conn \<Rightarrow> (string \<times> nat) list" where
  "entriesFor k st = filter (\<lambda>e. fst e = k) (subscriptionCancellers st)"

text \<open>The connection after one, and after two, \<^verbatim>\<open>start\<close> frames for the counter subscription.\<close>

definition counterFrames :: "GraphQLWSMessage list" where
  "counterFrames =
     [\<lparr>ID = Some ''1'', Type = ''data'',
       Payload = MarshalResult (Some \<lparr>Data = Some ''counter: 1'', Errors = []\<rparr>)\<rparr>,
      \<lparr>ID = Some ''1'', Type = ''data'',
       Payload = MarshalResult (Some \<lparr>Data = Some ''counter: 2'', Errors = []\<rparr>)\<rparr>]"

definition afterFirstCounter :: Conn where
  "afterFirstCounter =
     newConn\<lparr>subscriptionCancellers := [(''1'', 0)], nextCancel := 1, written := counterFrames\<rparr>"

definition afterSecondCounter :: Conn where
  "afterSecondCounter =
     newConn\<lparr>subscriptionCancellers := [(''1'', 1)], nextCancel := 2,
             written := counterFrames @ counterFrames\<rparr>"

section \<open>The pipeline\<close>

subsection \<open>Auxiliary facts\<close>

lemma do_passesStages:
  assumes "passesStages env p AST p'"
  shows "do env p skip =
           (stagesTrace env p' AST @ fst (dispatch env (executeParamsOf p' AST) AST skip),
            snd (dispatch env (executeParamsOf p' AST) AST skip))"
  using assms
  by (auto simp: passesStages_def do_def Let_def stagesTrace_def executeParamsOf_def
           split: prod.splits)

lemma dispatch_skip:
  "dispatch env params AST True =
     ([CallExecute], Returns \<lparr>sends = [Execute env params], closed = False\<rparr>)"
  by (simp add: dispatch_def)

lemma do_skip_single:
  "\<exists>r. snd (do env p True) = Returns \<lparr>sends = [r], closed = False\<rparr>"
  by (auto simp: do_def Let_def dispatch_skip wrapErr_def split: prod.splits sum.splits)

lemma assertOperation_Panics:
  "assertOperation d = Panics \<longleftrightarrow> \<not> isOperationDefinition d"
  by (cases d) (simp_all add: assertOperation_def)

lemma dispatch_trace:
  "fst (dispatch env params AST skip) \<in> {[], [CallExecute], [CallExecuteSubscription]}"
  by (auto simp: dispatch_def split: outcome.splits)

lemma calls_dispatch:
  "calls isParseStart (fst (dispatch env params AST skip)) = 0"
  "calls isParseFinish (fst (dispatch env params AST skip)) = 0"
  "calls isValidationStart (fst (dispatch env params AST skip)) = 0"
  "calls isValidationFinish (fst (dispatch env params AST skip)) = 0"
  "calls (\<lambda>e. e = CallParseDidStart []) (fst (dispatch env params AST skip)) = 0"
  "calls (\<lambda>e. e = CallValidationDidStart []) (fst (dispatch env params AST skip)) = 0"
  using dispatch_trace[of env params AST skip] by (auto simp: calls_def)

lemma passesStages_example:
  "passesStages exampleEnv (exampleParams ''{ hello }'')
     \<lparr>Definitions = [OperationDefinition ''query'']\<rparr> (exampleParams ''{ hello }'')"
  "passesStages exampleEnv (exampleParams fragmentFirstQuery)
     \<lparr>Definitions = [FragmentDefinition, OperationDefinition ''query'']\<rparr>
     (exampleParams fragmentFirstQuery)"
  by (simp_all add: passesStages_def exampleEnv_def exampleParams_def exampleParse_def
        fragmentFirstQuery_def lineFeedSubscription_def)

lemma exampleEnv_executors:
  "Execute exampleEnv params = helloResult"
  "ExecuteSubscription exampleEnv params = counterEvents"
  by (simp_all add: exampleEnv_def)

text \<open>
  Which strategy runs once the dispatch step is reached: the streaming one exactly when
  subscriptions are not skipped and the first definition is a subscription operation.
\<close>

lemma streaming_iff:
  assumes "passesStages env p AST p'"
  shows "CallExecuteSubscription \<in> set (fst (do env p skip)) \<longleftrightarrow>
           \<not> skip \<and> Definitions AST \<noteq> [] \<and>
           hd (Definitions AST) = OperationDefinition ''subscription''"
proof (cases "hd (Definitions AST)")
  case (OperationDefinition operation)
  then show ?thesis
    by (auto simp: do_passesStages[OF assms] stagesTrace_def dispatch_def assertOperation_def)
next
  case FragmentDefinition
  then show ?thesis
    by (auto simp: do_passesStages[OF assms] stagesTrace_def dispatch_def assertOperation_def)
next
  case (OtherNode kind)
  then show ?thesis
    by (auto simp: do_passesStages[OF assms] stagesTrace_def dispatch_def assertOperation_def)
qed

subsection \<open>Claims\<close>

text \<open>
  C1, as the specification states it: a valid single-operation query run with
  subscriptions skipped delivers one result and then the channel is closed. It fails for
  the query \<^verbatim>\<open>{ hello }\<close>: the text parses and validates, one result is delivered, and
  the channel is left open.
\<close>

theorem single_result_closes_counterexample:
  "passesStages exampleEnv (exampleParams ''{ hello }'')
     \<lparr>Definitions = [OperationDefinition ''query'']\<rparr> (exampleParams ''{ hello }'') \<and>
   snd (do exampleEnv (exampleParams ''{ hello }'') True)
     = Returns \<lparr>sends = [helloResult], closed = False\<rparr> \<and>
   \<not> deliversOneThenCloses \<lparr>sends = [helloResult], closed = False\<rparr>"
  by (simp add: passesStages_example do_passesStages[OF passesStages_example(1)]
        dispatch_skip exampleEnv_executors deliversOneThenCloses_def recv_def)

text \<open>
  C1, amended: for every request, \<^verbatim>\<open>do\<close> with subscriptions skipped returns a channel
  on which exactly one result is delivered, and \<^verbatim>\<open>Do\<close> returns that result. No further
  element is produced, but the channel is never closed: a second receive blocks. When
  the request passes every stage the one result is that of \<^verbatim>\<open>Execute\<close>.
\<close>

theorem single_result_then_blocks:
  "\<exists>ch r. snd (do env p True) = Returns ch \<and> fst (recv ch) = Received r \<and>
          deliversOneThenBlocks ch \<and> \<not> closed ch \<and> Do env p = Returns (Some r) \<and>
          rangeChan (\<lambda>x n. Suc n) ch (0::nat) = Blocked 1 \<and>
          (\<forall>AST p'. passesStages env p AST p' \<longrightarrow> r = Execute env (executeParamsOf p' AST))"
proof -
  obtain r where r: "snd (do env p True) = Returns \<lparr>sends = [r], closed = False\<rparr>"
    using do_skip_single by blast
  have "r = Execute env (executeParamsOf p' AST)" if "passesStages env p AST p'" for AST p'
    using r do_passesStages[OF that, of True] by (simp add: dispatch_skip)
  then show ?thesis
    using r by (auto simp: Do_def recv_def deliversOneThenBlocks_def rangeChan_def)
qed

theorem single_result_then_blocks_witness:
  "\<exists>ch. snd (do exampleEnv (exampleParams ''{ hello }'') True) = Returns ch \<and>
        fst (recv ch) = Received helloResult \<and> deliversOneThenBlocks ch \<and>
        Do exampleEnv (exampleParams ''{ hello }'') = Returns (Some helloResult)"
proof -
  from single_result_then_blocks[of exampleEnv "exampleParams ''{ hello }''"]
  obtain ch r where *: "snd (do exampleEnv (exampleParams ''{ hello }'') True) = Returns ch"
      "fst (recv ch) = Received r" "deliversOneThenBlocks ch"
      "Do exampleEnv (exampleParams ''{ hello }'') = Returns (Some r)"
      "\<forall>AST p'. passesStages exampleEnv (exampleParams ''{ hello }'') AST p' \<longrightarrow>
         r = Execute exampleEnv (executeParamsOf p' AST)"
    by blast
  from *(5) passesStages_example(1) have "r = helloResult"
    by (auto simp: exampleEnv_executors)
  with * show ?thesis by blast
qed

text \<open>
  C2: the specification sends every request that is not a subscription run with streaming
  allowed to the single-result strategy. The code does not for a document whose first
  definition is a fragment: run with streaming allowed, it passes every stage and then
  panics in the type assertion; neither strategy runs.
\<close>

theorem fragment_first_streaming_panics:
  "do exampleEnv (exampleParams fragmentFirstQuery) False =
     ([CallInits, CallParseDidStart [], CallParse, CallParseFinish None,
       CallValidationDidStart [], CallValidateDocument, CallValidationFinish []],
      Panics)"
proof -
  have "VErrors (ValidateDocument exampleEnv s AST) = []" for s AST
    by (simp add: exampleEnv_def)
  then show ?thesis
    by (simp add: do_passesStages[OF passesStages_example(2)] stagesTrace_def dispatch_def
          assertOperation_def)
qed

text \<open>
  C3, as the specification states it: the finish function returned by a start hook is
  called exactly once before the pipeline returns, also when hooks of that stage produce
  errors. It fails when the parse-start hook itself returns an error: the hook has run
  and returned its finish function, and \<^verbatim>\<open>do\<close> returns without calling it.
\<close>

theorem finish_hook_once_counterexample:
  "calls isParseStart (fst (do startFailsEnv (exampleParams ''{ hello }'') True)) = 1 \<and>
   calls isParseFinish (fst (do startFailsEnv (exampleParams ''{ hello }'') True)) = 0"
  by (simp add: do_def startFailsEnv_def exampleEnv_def exampleParams_def calls_def)

text \<open>
  C3, amended: in every run each start hook is called at most once, and a stage's finish
  function is called exactly once when the stage's start hook returned no errors (whether
  the stage then succeeds or fails, and whatever the finish hooks return): the parse
  finish function with the parser's error, if any, the validation finish function with
  the validation errors. When a stage's start hook returned errors, the pipeline calls
  nothing more: it returns at once the failed result that carries the hook's errors, and
  the stage's finish function is not called.
\<close>

theorem finish_hook_once_after_clean_start:
  "calls isParseStart (fst (do env p skip)) \<le> 1 \<and>
   calls isParseFinish (fst (do env p skip)) =
     calls (\<lambda>e. e = CallParseDidStart []) (fst (do env p skip)) \<and>
   calls isValidationStart (fst (do env p skip)) \<le> 1 \<and>
   calls isValidationFinish (fst (do env p skip)) =
     calls (\<lambda>e. e = CallValidationDidStart []) (fst (do env p skip)) \<and>
   (handleExtensionsInits env p = ([], p1) \<and>
    handleExtensionsParseDidStart env p1 = ((es, parseFinishFn), p2) \<and> es \<noteq> [] \<longrightarrow>
      do env p skip = ([CallInits, CallParseDidStart es], Returns (wrapErr es)) \<and>
      calls isParseFinish (fst (do env p skip)) = 0) \<and>
   (handleExtensionsInits env p = ([], p1) \<and>
    handleExtensionsParseDidStart env p1 = (([], parseFinishFn), p2) \<longrightarrow>
      calls isParseFinish (fst (do env p skip)) = 1 \<and>
      CallParseFinish (case Parse env (RequestString p) of Inl err \<Rightarrow> Some err | Inr AST \<Rightarrow> None)
        \<in> set (fst (do env p skip))) \<and>
   (handleExtensionsInits env p = ([], p1) \<and>
    handleExtensionsParseDidStart env p1 = (([], parseFinishFn), p2) \<and>
    Parse env (RequestString p) = Inr AST \<and> parseFinishFn None = [] \<and>
    handleExtensionsValidationDidStart env p2 = ((vs, validationFinishFn), p3) \<and> vs \<noteq> [] \<longrightarrow>
      do env p skip =
        ([CallInits, CallParseDidStart [], CallParse, CallParseFinish None,
          CallValidationDidStart vs], Returns (wrapErr vs)) \<and>
      calls isValidationFinish (fst (do env p skip)) = 0) \<and>
   (handleExtensionsInits env p = ([], p1) \<and>
    handleExtensionsParseDidStart env p1 = (([], parseFinishFn), p2) \<and>
    Parse env (RequestString p) = Inr AST \<and> parseFinishFn None = [] \<and>
    handleExtensionsValidationDidStart env p2 = (([], validationFinishFn), p3) \<longrightarrow>
      calls isValidationFinish (fst (do env p skip)) = 1 \<and>
      CallValidationFinish (VErrors (ValidateDocument env (Schema p3) AST))
        \<in> set (fst (do env p skip)))"
proof -
  have counts:
    "calls isParseStart (fst (do env p skip)) \<le> 1 \<and>
     calls isParseFinish (fst (do env p skip)) =
       calls (\<lambda>e. e = CallParseDidStart []) (fst (do env p skip)) \<and>
     calls isValidationStart (fst (do env p skip)) \<le> 1 \<and>
     calls isValidationFinish (fst (do env p skip)) =
       calls (\<lambda>e. e = CallValidationDidStart []) (fst (do env p skip))"
    using calls_dispatch[of env _ _ skip]
    by (auto simp: do_def Let_def calls_def case_prod_beta split: sum.splits)
  have parseStartFails:
    "do env p skip = ([CallInits, CallParseDidStart es], Returns (wrapErr es)) \<and>
     calls isParseFinish (fst (do env p skip)) = 0"
    if "handleExtensionsInits env p = ([], p1)"
      "handleExtensionsParseDidStart env p1 = ((es, parseFinishFn), p2)" "es \<noteq> []"
    using that by (simp add: do_def Let_def calls_def)
  have parseStartClean:
    "calls isParseFinish (fst (do env p skip)) = 1 \<and>
     CallParseFinish (case Parse env (RequestString p) of Inl err \<Rightarrow> Some err | Inr AST \<Rightarrow> None)
       \<in> set (fst (do env p skip))"
    if "handleExtensionsInits env p = ([], p1)"
      "handleExtensionsParseDidStart env p1 = (([], parseFinishFn), p2)"
    using that calls_dispatch(2)[of env _ _ skip]
    by (auto simp: do_def Let_def calls_def case_prod_beta split: sum.splits)
  have validationStartFails:
    "do env p skip =
       ([CallInits, CallParseDidStart [], CallParse, CallParseFinish None,
         CallValidationDidStart vs], Returns (wrapErr vs)) \<and>
     calls isValidationFinish (fst (do env p skip)) = 0"
    if "handleExtensionsInits env p = ([], p1)"
      "handleExtensionsParseDidStart env p1 = (([], parseFinishFn), p2)"
      "Parse env (RequestString p) = Inr AST" "parseFinishFn None = []"
      "handleExtensionsValidationDidStart env p2 = ((vs, validationFinishFn), p3)" "vs \<noteq> []"
    using that by (simp add: do_def Let_def calls_def)
  have validationStartClean:
    "calls isValidationFinish (fst (do env p skip)) = 1 \<and>
     CallValidationFinish (VErrors (ValidateDocument env (Schema p3) AST))
       \<in> set (fst (do env p skip))"
    if "handleExtensionsInits env p = ([], p1)"
      "handleExtensionsParseDidStart env p1 = (([], parseFinishFn), p2)"
      "Parse env (RequestString p) = Inr AST" "parseFinishFn None = []"
      "handleExtensionsValidationDidStart env p2 = (([], validationFinishFn), p3)"
    using that calls_dispatch(4)[of env _ _ skip]
    by (auto simp: do_def Let_def calls_def case_prod_beta)
  show ?thesis
    using counts parseStartFails parseStartClean validationStartFails validationStartClean
    by blast
qed

theorem finish_hook_once_after_clean_start_witness:
  "do startFailsEnv (exampleParams ''{ hello }'') True =
     ([CallInits, CallParseDidStart [hookError]], Returns (wrapErr [hookError])) \<and>
   calls isParseFinish (fst (do startFailsEnv (exampleParams ''{ hello }'') True)) = 0 \<and>
   do validationStartFailsEnv (exampleParams ''{ hello }'') True =
     ([CallInits, CallParseDidStart [], CallParse, CallParseFinish None,
       CallValidationDidStart [hookError]], Returns (wrapErr [hookError])) \<and>
   calls isValidationFinish (fst (do validationStartFailsEnv (exampleParams ''{ hello }'') True)) = 0 \<and>
   calls isParseFinish (fst (do finishReportsEnv (exampleParams ''{'') True)) = 1 \<and>
   CallParseFinish (Some ''Syntax Error'')
     \<in> set (fst (do finishReportsEnv (exampleParams ''{'') True)) \<and>
   calls isValidationFinish (fst (do finishReportsEnv (exampleParams ''{ hello }'') True)) = 1 \<and>
   CallValidationFinish [FormattedError ''unknown field'' ''e1'',
                         FormattedError ''unused fragment'' ''e2'']
     \<in> set (fst (do finishReportsEnv (exampleParams ''{ hello }'') True))"
proof -
  let ?hello = "exampleParams ''{ hello }''"
  let ?bad = "exampleParams ''{''"
  let ?doc = "\<lparr>Definitions = [OperationDefinition ''query'']\<rparr>"
  let ?none = "\<lambda>err::go_error option. [] :: FormattedError list"
  let ?vnone = "\<lambda>errs::FormattedError list. [] :: FormattedError list"
  let ?pf = "\<lambda>err. case err of None \<Rightarrow> [] | Some (e::go_error) \<Rightarrow> [hookError]"
  let ?vf = "\<lambda>errs::FormattedError list. if errs = [] then [] else [hookError]"
  have parse: "exampleParse ''{ hello }'' = Inr ?doc" "exampleParse ''{'' = Inl ''Syntax Error''"
    by (simp_all add: exampleParse_def lineFeedSubscription_def fragmentFirstQuery_def)
  have rs: "RequestString ?hello = ''{ hello }''" "RequestString ?bad = ''{''"
    by (simp_all add: exampleParams_def)
  have s1: "handleExtensionsInits startFailsEnv q = ([], q)"
    "handleExtensionsParseDidStart startFailsEnv q = (([hookError], ?none), q)" for q
    by (simp_all add: startFailsEnv_def exampleEnv_def)
  have s2: "handleExtensionsInits validationStartFailsEnv q = ([], q)"
    "handleExtensionsParseDidStart validationStartFailsEnv q = (([], ?none), q)"
    "handleExtensionsValidationDidStart validationStartFailsEnv q = (([hookError], ?vnone), q)"
    "Parse validationStartFailsEnv = exampleParse" for q
    by (simp_all add: validationStartFailsEnv_def exampleEnv_def)
  have s3: "handleExtensionsInits finishReportsEnv q = ([], q)"
    "handleExtensionsParseDidStart finishReportsEnv q = (([], ?pf), q)"
    "handleExtensionsValidationDidStart finishReportsEnv q = (([], ?vf), q)"
    "Parse finishReportsEnv = exampleParse"
    "VErrors (ValidateDocument finishReportsEnv sch d) =
       [FormattedError ''unknown field'' ''e1'', FormattedError ''unused fragment'' ''e2'']"
    for q sch d
    by (simp_all add: finishReportsEnv_def exampleEnv_def)
  have a: "do startFailsEnv ?hello True =
             ([CallInits, CallParseDidStart [hookError]], Returns (wrapErr [hookError])) \<and>
           calls isParseFinish (fst (do startFailsEnv ?hello True)) = 0"
  proof -
    have "handleExtensionsInits startFailsEnv ?hello = ([], ?hello) \<and>
          handleExtensionsParseDidStart startFailsEnv ?hello = (([hookError], ?none), ?hello) \<and>
          [hookError] \<noteq> []"
      by (simp add: s1)
    with finish_hook_once_after_clean_start[where env = startFailsEnv and p = ?hello
        and skip = True and ?p1.0 = ?hello and es = "[hookError]" and parseFinishFn = ?none
        and ?p2.0 = ?hello and AST = ?doc and vs = "[]" and validationFinishFn = ?vnone
        and ?p3.0 = ?hello]
    show ?thesis by blast
  qed
  have b: "do validationStartFailsEnv ?hello True =
             ([CallInits, CallParseDidStart [], CallParse, CallParseFinish None,
               CallValidationDidStart [hookError]], Returns (wrapErr [hookError])) \<and>
           calls isValidationFinish (fst (do validationStartFailsEnv ?hello True)) = 0"
  proof -
    have "handleExtensionsInits validationStartFailsEnv ?hello = ([], ?hello) \<and>
          handleExtensionsParseDidStart validationStartFailsEnv ?hello = (([], ?none), ?hello) \<and>
          Parse validationStartFailsEnv (RequestString ?hello) = Inr ?doc \<and> ?none None = [] \<and>
          handleExtensionsValidationDidStart validationStartFailsEnv ?hello
            = (([hookError], ?vnone), ?hello) \<and>
          [hookError] \<noteq> []"
      by (simp add: s2 parse rs)
    with finish_hook_once_after_clean_start[where env = validationStartFailsEnv and p = ?hello
        and skip = True and ?p1.0 = ?hello and es = "[]" and parseFinishFn = ?none
        and ?p2.0 = ?hello and AST = ?doc and vs = "[hookError]"
        and validationFinishFn = ?vnone and ?p3.0 = ?hello]
    show ?thesis by blast
  qed
  have c: "calls isParseFinish (fst (do finishReportsEnv ?bad True)) = 1 \<and>
           CallParseFinish (Some ''Syntax Error'') \<in> set (fst (do finishReportsEnv ?bad True))"
  proof -
    have "handleExtensionsInits finishReportsEnv ?bad = ([], ?bad) \<and>
          handleExtensionsParseDidStart finishReportsEnv ?bad = (([], ?pf), ?bad)"
      by (simp add: s3)
    with finish_hook_once_after_clean_start[where env = finishReportsEnv and p = ?bad
        and skip = True and ?p1.0 = ?bad and es = "[]" and parseFinishFn = ?pf
        and ?p2.0 = ?bad and AST = ?doc and vs = "[]" and validationFinishFn = ?vf
        and ?p3.0 = ?bad]
    have "calls isParseFinish (fst (do finishReportsEnv ?bad True)) = 1 \<and>
          CallParseFinish (case Parse finishReportsEnv (RequestString ?bad) of
                             Inl err \<Rightarrow> Some err | Inr AST \<Rightarrow> None)
            \<in> set (fst (do finishReportsEnv ?bad True))"
      by blast
    moreover have "(case Parse finishReportsEnv (RequestString ?bad) of
                      Inl err \<Rightarrow> Some err | Inr AST \<Rightarrow> None) = Some ''Syntax Error''"
      by (simp add: s3(4) parse rs)
    ultimately show ?thesis by metis
  qed
  have d: "calls isValidationFinish (fst (do finishReportsEnv ?hello True)) = 1 \<and>
           CallValidationFinish [FormattedError ''unknown field'' ''e1'',
                                 FormattedError ''unused fragment'' ''e2'']
             \<in> set (fst (do finishReportsEnv ?hello True))"
  proof -
    have "handleExtensionsInits finishReportsEnv ?hello = ([], ?hello) \<and>
          handleExtensionsParseDidStart finishReportsEnv ?hello = (([], ?pf), ?hello) \<and>
          Parse finishReportsEnv (RequestString ?hello) = Inr ?doc \<and> ?pf None = [] \<and>
          handleExtensionsValidationDidStart finishReportsEnv ?hello = (([], ?vf), ?hello)"
      by (simp add: s3 parse rs)
    with finish_hook_once_after_clean_start[where env = finishReportsEnv and p = ?hello
        and skip = True and ?p1.0 = ?hello and es = "[]" and parseFinishFn = ?pf
        and ?p2.0 = ?hello and AST = ?doc and vs = "[]" and validationFinishFn = ?vf
        and ?p3.0 = ?hello]
    have "calls isValidationFinish (fst (do finishReportsEnv ?hello True)) = 1 \<and>
          CallValidationFinish (VErrors (ValidateDocument finishReportsEnv (Schema ?hello) ?doc))
            \<in> set (fst (do finishReportsEnv ?hello True))"
      by blast
    then show ?thesis
      unfolding s3(5) .
  qed
  show ?thesis
    using a b c d by blast
qed

text \<open>
  C7: when parsing fails, or validation fails, after clean start hooks, the one result
  sent carries the errors of the stage's finish hooks followed by the errors of the stage
  itself, each list in its own order.
\<close>

theorem hook_errors_before_stage_errors:
  assumes "handleExtensionsInits env p = ([], p1)"
    and "handleExtensionsParseDidStart env p1 = (([], parseFinishFn), p2)"
  shows "(Parse env (RequestString p) = Inl err \<longrightarrow>
            snd (do env p skip) =
              Returns \<lparr>sends = [\<lparr>Data = None,
                         Errors = parseFinishFn (Some err) @ FormatErrors env err\<rparr>],
                       closed = False\<rparr>) \<and>
         (Parse env (RequestString p) = Inr AST \<and> parseFinishFn None = [] \<and>
          handleExtensionsValidationDidStart env p2 = (([], validationFinishFn), p3) \<and>
          \<not> IsValid (ValidateDocument env (Schema p3) AST) \<longrightarrow>
            snd (do env p skip) =
              Returns \<lparr>sends = [\<lparr>Data = None,
                         Errors = validationFinishFn (VErrors (ValidateDocument env (Schema p3) AST))
                                  @ VErrors (ValidateDocument env (Schema p3) AST)\<rparr>],
                       closed = False\<rparr>)"
  using assms by (simp add: do_def Let_def wrapErr_def)

theorem hook_errors_before_stage_errors_witness:
  "snd (do finishReportsEnv (exampleParams ''{'') True) =
     Returns \<lparr>sends = [\<lparr>Data = None,
                Errors = [hookError, FormattedError ''Syntax Error'' ''Syntax Error'']\<rparr>],
              closed = False\<rparr> \<and>
   snd (do finishReportsEnv (exampleParams ''{ hello }'') True) =
     Returns \<lparr>sends = [\<lparr>Data = None,
                Errors = [hookError, FormattedError ''unknown field'' ''e1'',
                          FormattedError ''unused fragment'' ''e2'']\<rparr>],
              closed = False\<rparr>"
proof -
  let ?pf = "\<lambda>err. case err of None \<Rightarrow> [] | Some (e::go_error) \<Rightarrow> [hookError]"
  let ?vf = "\<lambda>errs::FormattedError list. if errs = [] then [] else [hookError]"
  have a: "handleExtensionsInits finishReportsEnv p = ([], p)"
    and b: "handleExtensionsParseDidStart finishReportsEnv p = (([], ?pf), p)"
    and c: "handleExtensionsValidationDidStart finishReportsEnv p = (([], ?vf), p)" for p
    by (simp_all add: finishReportsEnv_def exampleEnv_def)
  have d: "Parse finishReportsEnv (RequestString (exampleParams ''{'')) = Inl ''Syntax Error''"
    and e: "Parse finishReportsEnv (RequestString (exampleParams ''{ hello }''))
              = Inr \<lparr>Definitions = [OperationDefinition ''query'']\<rparr>"
    by (simp_all add: finishReportsEnv_def exampleEnv_def exampleParams_def exampleParse_def
          lineFeedSubscription_def fragmentFirstQuery_def)
  have f: "\<not> IsValid (ValidateDocument finishReportsEnv s AST)" for s AST
    by (simp add: finishReportsEnv_def exampleEnv_def)
  have 1: "snd (do finishReportsEnv (exampleParams ''{'') True) =
     Returns \<lparr>sends = [\<lparr>Data = None,
                Errors = ?pf (Some ''Syntax Error'') @ FormatErrors finishReportsEnv ''Syntax Error''\<rparr>],
              closed = False\<rparr>"
    using hook_errors_before_stage_errors[OF a b, of "exampleParams ''{''" "''Syntax Error''" True] d
    by simp
  have 2: "snd (do finishReportsEnv (exampleParams ''{ hello }'') True) =
     Returns \<lparr>sends = [\<lparr>Data = None,
                Errors = ?vf (VErrors (ValidateDocument finishReportsEnv
                                (Schema (exampleParams ''{ hello }''))
                                \<lparr>Definitions = [OperationDefinition ''query'']\<rparr>))
                         @ VErrors (ValidateDocument finishReportsEnv
                                (Schema (exampleParams ''{ hello }''))
                                \<lparr>Definitions = [OperationDefinition ''query'']\<rparr>)\<rparr>],
              closed = False\<rparr>"
    using hook_errors_before_stage_errors[OF a b,
        of "exampleParams ''{ hello }''" _ True
           "\<lparr>Definitions = [OperationDefinition ''query'']\<rparr>" ?vf "exampleParams ''{ hello }''"]
      c e f
    by simp
  show ?thesis
    using 1 2 by (simp add: finishReportsEnv_def exampleEnv_def)
qed

text \<open>
  C10: once the dispatch step is reached with a document whose first definition is not an
  operation definition, \<^verbatim>\<open>DoAsync\<close> panics in the type assertion, while \<^verbatim>\<open>Do\<close>
  returns the result of \<^verbatim>\<open>Execute\<close>.
\<close>

theorem non_operation_first_DoAsync_panics:
  assumes "passesStages env p AST p'"
    and "Definitions AST = d # ds"
    and "\<not> isOperationDefinition d"
  shows "snd (DoAsync env p) = Panics \<and>
         Do env p = Returns (Some (Execute env (executeParamsOf p' AST)))"
  using assms(2,3) assertOperation_Panics[of d]
  by (simp add: DoAsync_def Do_def do_passesStages[OF assms(1)] dispatch_def recv_def)

theorem non_operation_first_DoAsync_panics_witness:
  "snd (DoAsync exampleEnv (exampleParams fragmentFirstQuery)) = Panics \<and>
   Do exampleEnv (exampleParams fragmentFirstQuery) = Returns (Some helloResult)"
  using non_operation_first_DoAsync_panics[OF passesStages_example(2),
      of FragmentDefinition "[OperationDefinition ''query'']"]
  by (simp add: exampleEnv_executors)

section \<open>The websocket handler\<close>

subsection \<open>Auxiliary facts\<close>

lemma fold_WriteJSON:
  "subscriptionCancellers (fold (\<lambda>x. WriteJSON (g x)) xs st) = subscriptionCancellers st"
  "cancelled (fold (\<lambda>x. WriteJSON (g x)) xs st) = cancelled st"
  "nextCancel (fold (\<lambda>x. WriteJSON (g x)) xs st) = nextCancel st"
  by (induction xs arbitrary: st) (simp_all add: WriteJSON_def)

lemma afterTask_rangeChan:
  "afterTask (rangeChan body ch st) = Some (fold body (sends ch) st)"
  by (simp add: rangeChan_def Let_def)

text \<open>
  What the \<^verbatim>\<open>subscribe\<close>/\<^verbatim>\<open>start\<close> case does to the registry and to the cancel
  functions, whichever branch it takes: it stores the new cancel function under the
  frame's id and calls at most that one.
\<close>

lemma handleStart_effect:
  assumes "UnmarshalPayload codec (Payload msg) = Inr payload"
    and "afterTask (handleStart h codec env msg st) = Some st'"
  shows "subscriptionCancellers st' =
           AList.update (Sprintf_v codec (ID msg)) (nextCancel st) (subscriptionCancellers st)"
    and "nextCancel st' = Suc (nextCancel st)"
    and "cancelled st' = cancelled st \<or> cancelled st' = cancelled st @ [nextCancel st]"
  using assms
  by (auto simp: handleStart_def Let_def Store_def callCancel_def WriteJSON_def
        afterTask_rangeChan fold_WriteJSON
      split: if_splits outcome.splits option.splits)

lemma handleMessage_start:
  assumes "UnmarshalMessage codec m = Inr msg" and "Type msg = ''subscribe'' \<or> Type msg = ''start''"
  shows "handleMessage h codec env m st = handleStart h codec env msg st"
  using assms by (auto simp: handleMessage_def)

lemma Range_cancel_all:
  "subscriptionCancellers (Range (\<lambda>id cancel s. (True, callCancel cancel (Delete id s))) kvs st)
     = filter (\<lambda>e. fst e \<notin> fst ` set kvs) (subscriptionCancellers st) \<and>
   cancelled (Range (\<lambda>id cancel s. (True, callCancel cancel (Delete id s))) kvs st)
     = cancelled st @ map snd kvs"
proof (induction kvs arbitrary: st)
  case Nil
  then show ?case by simp
next
  case (Cons kv kvs)
  obtain k v where kv: "kv = (k, v)" by (cases kv)
  let ?st = "callCancel v (Delete k st)"
  have reg: "subscriptionCancellers ?st = AList.delete k (subscriptionCancellers st)"
    and can: "cancelled ?st = cancelled st @ [v]"
    by (simp_all add: callCancel_def Delete_def)
  have flt: "filter (\<lambda>e. fst e \<notin> fst ` set kvs) (AList.delete k (subscriptionCancellers st))
          = filter (\<lambda>e. fst e \<notin> fst ` set (kv # kvs)) (subscriptionCancellers st)"
    by (auto simp: kv AList.delete_eq case_prod_beta intro: filter_cong)
  show ?case
    using Cons.IH[of ?st] by (simp add: kv reg can flt del: set_simps)
qed

lemma filter_key_distinct:
  assumes "distinct (map fst al)" and "map_of al k = Some v"
  shows "filter (\<lambda>e. fst e = k) al = [(k, v)]"
  using assms
proof (induction al)
  case Nil
  then show ?case by simp
next
  case (Cons e al)
  show ?case
  proof (cases "fst e = k")
    case True
    with Cons.prems have "e = (k, v)" by (cases e) simp
    moreover have "k \<notin> fst ` set al"
      using Cons.prems(1) True by auto
    then have "filter (\<lambda>e. fst e = k) al = []"
      by (force simp: filter_empty_conv)
    ultimately show ?thesis by simp
  next
    case False
    with Cons show ?thesis by (cases e) auto
  qed
qed

lemma Range_cancel_flags:
  "tickerStopped (Range (\<lambda>id cancel s. (True, callCancel cancel (Delete id s))) kvs st)
     = tickerStopped st \<and>
   connClosed (Range (\<lambda>id cancel s. (True, callCancel cancel (Delete id s))) kvs st)
     = connClosed st"
proof (induction kvs arbitrary: st)
  case Nil
  then show ?case by simp
next
  case (Cons kv kvs)
  obtain k v where kv: "kv = (k, v)" by (cases kv)
  let ?st = "callCancel v (Delete k st)"
  have "tickerStopped ?st = tickerStopped st" and "connClosed ?st = connClosed st"
    by (simp_all add: callCancel_def Delete_def)
  then show ?case
    using Cons.IH[of ?st] by (simp add: kv)
qed

subsection \<open>Claims\<close>

text \<open>
  C4, as the specification states it: a second registration under an id with a live
  session is rejected, or else evicts the prior session and calls its cancel function. It
  fails for two \<^verbatim>\<open>start\<close> frames with id 1 that carry a running subscription: the second
  registration is accepted, the registry keeps only the second cancel function, and the
  first one has not been called, so both sessions are live.
\<close>

theorem duplicate_id_counterexample:
  "map_option (\<lambda>st. (subscriptionCancellers st, cancelled st, liveSessions st))
     (handleMessages exampleHandler exampleCodec exampleEnv [counterFrame, counterFrame] newConn)
   = Some ([(''1'', 1)], [], [0, 1])"
  by code_simp

text \<open>
  C4, amended: a \<^verbatim>\<open>start\<close> or \<^verbatim>\<open>subscribe\<close> frame whose id already has a live registered
  session is never rejected. Afterwards the registry holds exactly one entry for the id,
  that of the new session; the prior cancel function has been replaced without being
  called, so the prior session stays live.
\<close>

theorem duplicate_id_replaces_without_cancel:
  assumes "UnmarshalPayload codec (Payload msg) = Inr payload"
    and "Load (Sprintf_v codec (ID msg)) st = Some c"
    and "c < nextCancel st"
    and "c \<notin> set (cancelled st)"
    and "distinct (map fst (subscriptionCancellers st))"
    and "afterTask (handleStart h codec env msg st) = Some st'"
  shows "entriesFor (Sprintf_v codec (ID msg)) st' = [(Sprintf_v codec (ID msg), nextCancel st)] \<and>
         Load (Sprintf_v codec (ID msg)) st' = Some (nextCancel st) \<and>
         c \<noteq> nextCancel st \<and> c \<notin> set (cancelled st')"
proof -
  let ?k = "Sprintf_v codec (ID msg)"
  note eff = handleStart_effect[OF assms(1) assms(6)]
  have d: "distinct (map fst (subscriptionCancellers st'))"
    using assms(5) by (simp add: eff(1) distinct_update)
  have m: "map_of (subscriptionCancellers st') ?k = Some (nextCancel st)"
    by (simp add: eff(1) update_conv')
  from filter_key_distinct[OF d m] have e: "entriesFor ?k st' = [(?k, nextCancel st)]"
    by (simp add: entriesFor_def)
  have "c \<notin> set (cancelled st')"
    using eff(3) assms(3,4) by auto
  with e m assms(3) show ?thesis by (simp add: Load_def)
qed

theorem duplicate_id_replaces_without_cancel_witness:
  "handleMessage exampleHandler exampleCodec exampleEnv counterFrame newConn
     = Blocked afterFirstCounter \<and>
   Load ''1'' afterFirstCounter = Some 0 \<and> 0 \<notin> set (cancelled afterFirstCounter) \<and>
   handleMessage exampleHandler exampleCodec exampleEnv counterFrame afterFirstCounter
     = Blocked afterSecondCounter \<and>
   entriesFor ''1'' afterSecondCounter = [(''1'', 1)] \<and>
   Load ''1'' afterSecondCounter = Some 1 \<and> 0 \<notin> set (cancelled afterSecondCounter)"
proof -
  let ?msg = "startFrame ''subscription { counter }''"
  have msg: "UnmarshalMessage exampleCodec counterFrame = Inr ?msg"
    by code_simp
  have ty: "Type ?msg = ''subscribe'' \<or> Type ?msg = ''start''"
    by (simp add: startFrame_def)
  have pay: "UnmarshalPayload exampleCodec (Payload ?msg) =
               Inr \<lparr>pOperationName = [], Query = ''subscription { counter }'',
                    Variables = [], Extensions = []\<rparr>"
    by (simp add: exampleCodec_def startFrame_def)
  have key: "Sprintf_v exampleCodec (ID ?msg) = ''1''"
    by (simp add: exampleCodec_def startFrame_def)
  have 1: "handleMessage exampleHandler exampleCodec exampleEnv counterFrame newConn
             = Blocked afterFirstCounter"
    by code_simp
  have 2: "handleMessage exampleHandler exampleCodec exampleEnv counterFrame afterFirstCounter
             = Blocked afterSecondCounter"
    by code_simp
  have 3: "afterTask (handleStart exampleHandler exampleCodec exampleEnv ?msg afterFirstCounter)
             = Some afterSecondCounter"
    using 2 by (simp add: handleMessage_start[OF msg ty])
  have a: "Load ''1'' afterFirstCounter = Some 0"
    and b: "0 < nextCancel afterFirstCounter"
    and c: "0 \<notin> set (cancelled afterFirstCounter)"
    and d: "distinct (map fst (subscriptionCancellers afterFirstCounter))"
    and n: "nextCancel afterFirstCounter = 1"
    by (simp_all add: afterFirstCounter_def newConn_def Load_def)
  from duplicate_id_replaces_without_cancel[OF pay _ b c d 3] a
  have "entriesFor ''1'' afterSecondCounter = [(''1'', 1)] \<and>
        Load ''1'' afterSecondCounter = Some 1 \<and> 0 \<notin> set (cancelled afterSecondCounter)"
    unfolding key n by blast
  with 1 2 a c show ?thesis by blast
qed

text \<open>
  C5: teardown calls the cancel function of every session registered at that time, each
  once and in registry order, and leaves the registry empty.
\<close>

theorem terminateConnection_cancels_all:
  "subscriptionCancellers (terminateConnection st) = [] \<and>
   cancelled (terminateConnection st) = cancelled st @ map snd (subscriptionCancellers st) \<and>
   tickerStopped (terminateConnection st) \<and> connClosed (terminateConnection st)"
proof -
  define st1 where "st1 = st\<lparr>tickerStopped := True, connClosed := True\<rparr>"
  define kvs where "kvs = subscriptionCancellers st"
  have t: "terminateConnection st =
             Range (\<lambda>id cancel s. (True, callCancel cancel (Delete id s))) kvs st1"
    by (simp add: terminateConnection_def Let_def st1_def kvs_def)
  have f: "subscriptionCancellers st1 = kvs" "cancelled st1 = cancelled st"
    "tickerStopped st1" "connClosed st1"
    by (simp_all add: st1_def kvs_def)
  have e: "filter (\<lambda>e. fst e \<notin> fst ` set kvs) kvs = []"
    by (simp add: filter_empty_conv)
  from Range_cancel_all[of kvs st1] have
    "subscriptionCancellers (terminateConnection st) = []"
    "cancelled (terminateConnection st) = cancelled st @ map snd kvs"
    unfolding t f e by blast+
  moreover from Range_cancel_flags[of kvs st1] have
    "tickerStopped (terminateConnection st)" "connClosed (terminateConnection st)"
    unfolding t using f(3,4) by blast+
  ultimately show ?thesis
    unfolding kvs_def by blast
qed

text \<open>
  C6, as the specification states it: the probe interval is strictly less than half the
  read timeout, that is, strictly less than 30 seconds. It is not.
\<close>

theorem probe_interval_counterexample:
  "\<not> pingPeriod < pongWait div 2 \<and> \<not> pingPeriod < 30 * Second"
  by (simp add: pingPeriod_def pongWait_def Second_def)

text \<open>
  C6, amended: the probe interval is exactly half the read timeout, 30 seconds for the
  read timeout of 60 seconds, and so strictly less than the read timeout itself.
\<close>

theorem probe_interval_half_read_timeout:
  "pongWait = 60 * Second \<and> pingPeriod = pongWait div 2 \<and> pingPeriod = 30 * Second \<and>
   pingPeriod < pongWait"
  by (simp add: pingPeriod_def pongWait_def Second_def)

text \<open>
  C8: the specification runs the streaming pipeline exactly for subscription documents,
  whatever white space precedes the keyword. The handler trims spaces only: for the
  query that begins with a line feed the prefix test fails although the document's first
  operation is a subscription, and the handler takes the single-result path: it writes
  the one result of \<^verbatim>\<open>Do\<close> and cancels the session.
\<close>

theorem line_feed_subscription_runs_Do:
  "\<not> HasPrefix (TrimLeft lineFeedSubscription '' '') ''subscription'' \<and>
   Parse exampleEnv lineFeedSubscription = Inr \<lparr>Definitions = [OperationDefinition ''subscription'']\<rparr> \<and>
   handleMessage exampleHandler exampleCodec exampleEnv lineFeedFrame newConn =
     Done (newConn\<lparr>subscriptionCancellers := [(''1'', 0)], nextCancel := 1, cancelled := [0],
            written := [\<lparr>ID = Some ''1'', Type = ''data'',
                         Payload = MarshalResult (Some helloResult)\<rparr>]\<rparr>)"
  by code_simp

text \<open>
  C9: the specification cancels and deregisters the session of a non-subscription
  operation once its result is sent. The handler writes the one data frame and calls the
  cancel function, but leaves the entry in the registry.
\<close>

theorem query_session_stays_registered:
  "handleMessage exampleHandler exampleCodec exampleEnv helloFrame newConn =
     Done (newConn\<lparr>subscriptionCancellers := [(''1'', 0)], nextCancel := 1, cancelled := [0],
            written := [\<lparr>ID = Some ''1'', Type = ''data'',
                         Payload = MarshalResult (Some helloResult)\<rparr>]\<rparr>) \<and>
   Load ''1'' (newConn\<lparr>subscriptionCancellers := [(''1'', 0)], nextCancel := 1, cancelled := [0],
            written := [\<lparr>ID = Some ''1'', Type = ''data'',
                         Payload = MarshalResult (Some helloResult)\<rparr>]\<rparr>) = Some 0"
  by code_simp

end
